theory Spec2Isabelle
  imports Main
begin

section \<open>Data model\<close>

text \<open>
  The validator of \<^verbatim>\<open>validator_version_4.py\<close> is embedded as pure functions that
  thread an explicit trace of the effects the program performs (log lines, subprocess
  spawns, filesystem queries, network probes). Everything outside the program (the
  \<^verbatim>\<open>terraform\<close> binary, the filesystem, the network, the \<^verbatim>\<open>hcl2\<close> parser and
  \<^verbatim>\<open>urllib.parse.urlparse\<close>) is a field of an environment record: the answer such a
  call gives. A Python exception is a value: a function that may raise returns
  \<open>exn + 'a\<close>, with \<open>Inl\<close> for the exception that leaves the function.
\<close>

text \<open>
  Values produced by the configuration parser: \<^verbatim>\<open>None\<close>, booleans, numbers, strings,
  lists and dictionaries with string keys. A dictionary is an association list in
  insertion order, which is the order \<^verbatim>\<open>dict.items()\<close> iterates in.
\<close>

datatype pyval =
    PNone
  | PBool bool
  | PInt int
  | PStr string
  | PList "pyval list"
  | PDict "(string \<times> pyval) list"

text \<open>Python truthiness, as tested by \<^verbatim>\<open>if source:\<close>.\<close>

fun truthy :: "pyval \<Rightarrow> bool" where
  "truthy PNone = False"
| "truthy (PBool b) = b"
| "truthy (PInt i) = (i \<noteq> 0)"
| "truthy (PStr s) = (s \<noteq> [])"
| "truthy (PList xs) = (xs \<noteq> [])"
| "truthy (PDict kvs) = (kvs \<noteq> [])"

fun type_name :: "pyval \<Rightarrow> string" where
  "type_name PNone = ''NoneType''"
| "type_name (PBool b) = ''bool''"
| "type_name (PInt i) = ''int''"
| "type_name (PStr s) = ''str''"
| "type_name (PList xs) = ''list''"
| "type_name (PDict kvs) = ''dict''"

text \<open>
  Exceptions carry the class that decides which \<^verbatim>\<open>except\<close> clause catches them and the
  text \<^verbatim>\<open>str(e)\<close>. The class \<open>BaseException\<close> stands for the exceptions that are not
  instances of \<^verbatim>\<open>Exception\<close> (such as \<^verbatim>\<open>KeyboardInterrupt\<close>), which
  \<^verbatim>\<open>except Exception\<close> lets through; \<open>Exception\<close> stands for every instance of
  \<^verbatim>\<open>Exception\<close> that is none of the classes named before it.
\<close>

datatype exn_class =
    CalledProcessError
  | FileNotFoundError
  | RequestException
  | AttributeError
  | Exception
  | BaseException

datatype exn = Exn (exn_class: exn_class) (exn_str: string)

definition is_Exception :: "exn \<Rightarrow> bool" where
  "is_Exception e = (exn_class e \<noteq> BaseException)"

text \<open>The text of the \<^verbatim>\<open>AttributeError\<close> Python raises for a missing attribute.\<close>

definition no_attribute :: "pyval \<Rightarrow> string \<Rightarrow> exn" where
  "no_attribute v attr =
     Exn AttributeError
       ([CHR 0x27] @ type_name v @ [CHR 0x27] @ '' object has no attribute '' @
        [CHR 0x27] @ attr @ [CHR 0x27])"

record CompletedProcess =
  returncode :: int
  stdout :: string
  stderr :: string

record ValidationResult =
  file_path :: string
  issues :: "string list"
  is_valid :: bool

datatype log_level = INFO | WARNING | ERROR

text \<open>The effects of the program, in the order they happen.\<close>

datatype event =
    Log log_level string
  | Call_subprocess_run "string list"
  | Call_listdir string
  | Call_walk string
  | Call_exists string
  | Call_open string
  | Call_head string

text \<open>
  The environment: what each external call answers. \<open>subprocess_run\<close> is
  \<^verbatim>\<open>subprocess.run(args, capture_output=True, text=True)\<close>; \<open>hcl2_load\<close> is
  \<^verbatim>\<open>open(path)\<close> followed by \<^verbatim>\<open>hcl2.load\<close>; \<open>requests_head\<close> is the status code of
  \<^verbatim>\<open>requests.head(url, allow_redirects=True, timeout=5)\<close>; \<open>urlparse_scheme\<close> is
  \<^verbatim>\<open>urlparse(s).scheme\<close> for a string \<open>s\<close>; \<open>os_walk\<close> lists the triples
  \<^verbatim>\<open>(root, dirs, files)\<close> that \<^verbatim>\<open>os.walk\<close> yields.
\<close>

record env =
  subprocess_run :: "string list \<Rightarrow> exn + CompletedProcess"
  os_listdir :: "string \<Rightarrow> exn + string list"
  os_walk :: "string \<Rightarrow> (string \<times> string list \<times> string list) list"
  os_path_exists :: "string \<Rightarrow> bool"
  hcl2_load :: "string \<Rightarrow> exn + (string \<times> pyval) list"
  requests_head :: "string \<Rightarrow> exn + int"
  urlparse_scheme :: "string \<Rightarrow> exn + string"

type_synonym trace = "event list"

section \<open>String helpers of the Python library\<close>

definition endswith :: "string \<Rightarrow> string \<Rightarrow> bool" where
  "endswith s suf = (length suf \<le> length s \<and> drop (length s - length suf) s = suf)"

text \<open>\<^verbatim>\<open>os.path.join(a, b)\<close> of \<^verbatim>\<open>posixpath\<close>: an absolute \<open>b\<close> replaces \<open>a\<close>.\<close>

definition os_path_join :: "string \<Rightarrow> string \<Rightarrow> string" where
  "os_path_join a b =
     (if b \<noteq> [] \<and> hd b = CHR ''/'' then b
      else if a = [] \<or> last a = CHR ''/'' then a @ b
      else a @ ''/'' @ b)"

text \<open>
  \<^verbatim>\<open>repr\<close> of a string and \<^verbatim>\<open>str\<close> of a list of strings, which an f-string applies
  to \<^verbatim>\<open>{invalid_sources}\<close>. A character stands for the code point of its number
  (0 to 255).
\<close>

definition hexdigit :: "nat \<Rightarrow> char" where
  "hexdigit n = ''0123456789abcdef'' ! (n mod 16)"

definition repr_quote :: "string \<Rightarrow> char" where
  "repr_quote s =
     (if CHR 0x27 \<in> set s \<and> CHR 0x22 \<notin> set s then CHR 0x22 else CHR 0x27)"

definition repr_char :: "char \<Rightarrow> char \<Rightarrow> string" where
  "repr_char quote ch =
     (let n = (of_char ch :: nat) in
      if ch = quote \<or> ch = CHR 0x5C then [CHR 0x5C, ch]
      else if ch = CHR 0x09 then [CHR 0x5C, CHR ''t'']
      else if ch = CHR 0x0A then [CHR 0x5C, CHR ''n'']
      else if ch = CHR 0x0D then [CHR 0x5C, CHR ''r'']
      else if n < 32 \<or> n = 127 then [CHR 0x5C, CHR ''x'', hexdigit (n div 16), hexdigit n]
      else if n < 127 then [ch]
      else if n \<le> 160 \<or> n = 173 then [CHR 0x5C, CHR ''x'', hexdigit (n div 16), hexdigit n]
      else [ch])"

definition py_repr :: "string \<Rightarrow> string" where
  "py_repr s = (let quote = repr_quote s in [quote] @ concat (map (repr_char quote) s) @ [quote])"

fun join_comma :: "string list \<Rightarrow> string" where
  "join_comma [] = []"
| "join_comma [x] = x"
| "join_comma (x # y # ys) = x @ '', '' @ join_comma (y # ys)"

definition py_str_list :: "string list \<Rightarrow> string" where
  "py_str_list xs = ''['' @ join_comma (map py_repr xs) @ '']''"

section \<open>External Tool Runner\<close>

text \<open>
  Each of the four methods runs one subcommand inside \<^verbatim>\<open>try\<close>, with the clauses
  \<^verbatim>\<open>except subprocess.CalledProcessError\<close>, \<^verbatim>\<open>except FileNotFoundError\<close> and
  \<^verbatim>\<open>except Exception\<close>, in that order.
\<close>

definition command_not_found :: string where
  "command_not_found =
     ''Terraform command not found. Please ensure terraform is installed and in your PATH''"

definition run_terraform_fmt :: "env \<Rightarrow> string \<Rightarrow> trace \<Rightarrow> (exn + bool) \<times> trace" where
  "run_terraform_fmt env directory t =
     (let args = [''terraform'', ''fmt'', ''-check'', directory];
          t1 = t @ [Log INFO ''Running terraform fmt check...'', Call_subprocess_run args]
      in case subprocess_run env args of
           Inr result \<Rightarrow>
             if returncode result = 0
             then (Inr True, t1 @ [Log INFO ''Terraform formatting check passed''])
             else (Inr False,
                   t1 @ [Log WARNING (''Terraform formatting issues found:'' @ [CHR 0x0A] @ stdout result)])
         | Inl e \<Rightarrow>
             (case exn_class e of
                CalledProcessError \<Rightarrow>
                  (Inr False, t1 @ [Log ERROR (''Error running terraform fmt: '' @ exn_str e)])
              | FileNotFoundError \<Rightarrow> (Inr False, t1 @ [Log ERROR command_not_found])
              | BaseException \<Rightarrow> (Inl e, t1)
              | _ \<Rightarrow>
                  (Inr False,
                   t1 @ [Log ERROR (''Unexpected error running terraform fmt: '' @ exn_str e)])))"

definition run_terraform_init :: "env \<Rightarrow> string \<Rightarrow> trace \<Rightarrow> (exn + bool) \<times> trace" where
  "run_terraform_init env directory t =
     (let args = [''terraform'', ''init'', directory];
          t1 = t @ [Log INFO ''Running terraform init...'', Call_subprocess_run args]
      in case subprocess_run env args of
           Inr result \<Rightarrow>
             if returncode result = 0
             then (Inr True, t1 @ [Log INFO ''Terraform init completed successfully''])
             else (Inr False,
                   t1 @ [Log WARNING (''Terraform init issues found:'' @ [CHR 0x0A] @ stderr result)])
         | Inl e \<Rightarrow>
             (case exn_class e of
                CalledProcessError \<Rightarrow>
                  (Inr False, t1 @ [Log ERROR (''Error running terraform init: '' @ exn_str e)])
              | FileNotFoundError \<Rightarrow> (Inr False, t1 @ [Log ERROR command_not_found])
              | BaseException \<Rightarrow> (Inl e, t1)
              | _ \<Rightarrow>
                  (Inr False,
                   t1 @ [Log ERROR (''Unexpected error running terraform init: '' @ exn_str e)])))"

definition run_terraform_plan :: "env \<Rightarrow> string \<Rightarrow> trace \<Rightarrow> (exn + bool) \<times> trace" where
  "run_terraform_plan env directory t =
     (let args = [''terraform'', ''plan'', directory];
          t1 = t @ [Log INFO ''Running terraform plan...'', Call_subprocess_run args]
      in case subprocess_run env args of
           Inr result \<Rightarrow>
             if returncode result = 0
             then (Inr True, t1 @ [Log INFO ''Terraform plan completed successfully''])
             else (Inr False,
                   t1 @ [Log WARNING (''Terraform plan issues found:'' @ [CHR 0x0A] @ stderr result)])
         | Inl e \<Rightarrow>
             (case exn_class e of
                CalledProcessError \<Rightarrow>
                  (Inr False, t1 @ [Log ERROR (''Error running terraform plan: '' @ exn_str e)])
              | FileNotFoundError \<Rightarrow> (Inr False, t1 @ [Log ERROR command_not_found])
              | BaseException \<Rightarrow> (Inl e, t1)
              | _ \<Rightarrow>
                  (Inr False,
                   t1 @ [Log ERROR (''Unexpected error running terraform plan: '' @ exn_str e)])))"

definition run_terraform_validate :: "env \<Rightarrow> string \<Rightarrow> trace \<Rightarrow> (exn + bool) \<times> trace" where
  "run_terraform_validate env directory t =
     (let args = [''terraform'', ''validate'', directory];
          t1 = t @ [Log INFO ''Running terraform validate...'', Call_subprocess_run args]
      in case subprocess_run env args of
           Inr result \<Rightarrow>
             if returncode result = 0
             then (Inr True, t1 @ [Log INFO ''Terraform validation passed''])
             else (Inr False,
                   t1 @ [Log WARNING (''Terraform validation issues found:'' @ [CHR 0x0A] @ stdout result)])
         | Inl e \<Rightarrow>
             (case exn_class e of
                CalledProcessError \<Rightarrow>
                  (Inr False, t1 @ [Log ERROR (''Error running terraform validate: '' @ exn_str e)])
              | FileNotFoundError \<Rightarrow> (Inr False, t1 @ [Log ERROR command_not_found])
              | BaseException \<Rightarrow> (Inl e, t1)
              | _ \<Rightarrow>
                  (Inr False,
                   t1 @ [Log ERROR (''Unexpected error running terraform validate: '' @ exn_str e)])))"

section \<open>Configuration Parser Adapter\<close>

text \<open>
  \<^verbatim>\<open>parse_terraform_file\<close> logs an error and raises the same exception again when
  opening or parsing fails with an instance of \<^verbatim>\<open>Exception\<close>.
\<close>

definition parse_terraform_file ::
  "env \<Rightarrow> string \<Rightarrow> trace \<Rightarrow> (exn + (string \<times> pyval) list) \<times> trace" where
  "parse_terraform_file env path t =
     (let t1 = t @ [Call_open path]
      in case hcl2_load env path of
           Inr parser_data \<Rightarrow> (Inr parser_data, t1)
         | Inl e \<Rightarrow>
             if is_Exception e
             then (Inl e, t1 @ [Log ERROR (''Error parsing file '' @ path @ '': '' @ exn_str e)])
             else (Inl e, t1))"

section \<open>Module Source Checker\<close>

text \<open>
  The body of the loop \<^verbatim>\<open>for module_name, config in modules.items()\<close> of
  \<^verbatim>\<open>check_module_sources\<close>: one module block, the list \<^verbatim>\<open>invalid_sources\<close> so far
  and the trace so far. \<^verbatim>\<open>config.get\<close> exists only when \<^verbatim>\<open>config\<close> is a dictionary;
  \<^verbatim>\<open>urlparse\<close> applied to a true value that is not a string calls its \<^verbatim>\<open>decode\<close>
  method, which these values do not have. Only \<^verbatim>\<open>requests.RequestException\<close> is caught
  around the probe.
\<close>

definition check_module_sources_body ::
  "env \<Rightarrow> string \<Rightarrow> string \<Rightarrow> pyval \<Rightarrow> string list \<Rightarrow> trace \<Rightarrow> (exn + string list) \<times> trace" where
  "check_module_sources_body env directory module_name config invalid_sources t =
     (case config of
        PDict attrs \<Rightarrow>
          (let source = (case map_of attrs ''source'' of None \<Rightarrow> PNone | Some v \<Rightarrow> v)
           in if truthy source then
                (case source of
                   PStr src \<Rightarrow>
                     (case urlparse_scheme env src of
                        Inl e \<Rightarrow> (Inl e, t)
                      | Inr scheme \<Rightarrow>
                          if scheme \<in> set [''http'', ''https''] then
                            (let t1 = t @ [Call_head src]
                             in case requests_head env src of
                                  Inr status_code \<Rightarrow>
                                    if status_code \<ge> 400
                                    then (Inr (invalid_sources @
                                            [''Module '' @ module_name @ '': Unreachable source URL '' @ src]),
                                          t1)
                                    else (Inr invalid_sources, t1)
                                | Inl e \<Rightarrow>
                                    if exn_class e = RequestException
                                    then (Inr (invalid_sources @
                                            [''Module '' @ module_name @ '': Unreachable source URL '' @ src]),
                                          t1 @ [Log WARNING
                                            (''Error reaching module source URL '' @ src @ '': '' @ exn_str e)])
                                    else (Inl e, t1))
                          else if scheme = [] then
                            (let local_path = os_path_join directory src;
                                 t1 = t @ [Call_exists local_path]
                             in if \<not> os_path_exists env local_path
                                then (Inr (invalid_sources @
                                        [''Module '' @ module_name @ '': Local source path does not exist '' @ src]),
                                      t1)
                                else (Inr invalid_sources, t1))
                          else (Inr invalid_sources, t))
                 | _ \<Rightarrow> (Inl (no_attribute source ''decode''), t))
              else (Inr invalid_sources, t))
      | _ \<Rightarrow> (Inl (no_attribute config ''get''), t))"

fun check_module_sources_loop ::
  "env \<Rightarrow> string \<Rightarrow> (string \<times> pyval) list \<Rightarrow> string list \<Rightarrow> trace \<Rightarrow> (exn + string list) \<times> trace" where
  "check_module_sources_loop env directory [] invalid_sources t = (Inr invalid_sources, t)"
| "check_module_sources_loop env directory ((module_name, config) # rest) invalid_sources t =
     (case check_module_sources_body env directory module_name config invalid_sources t of
        (Inl e, t1) \<Rightarrow> (Inl e, t1)
      | (Inr invalid_sources1, t1) \<Rightarrow>
          check_module_sources_loop env directory rest invalid_sources1 t1)"

text \<open>
  \<^verbatim>\<open>parser_data.get('module', {})\<close>, then the loop over \<^verbatim>\<open>modules.items()\<close>, which
  exists only when the value under \<^verbatim>\<open>'module'\<close> is a dictionary.
\<close>

definition check_module_sources ::
  "env \<Rightarrow> string \<Rightarrow> (string \<times> pyval) list \<Rightarrow> trace \<Rightarrow> (exn + string list) \<times> trace" where
  "check_module_sources env directory parser_data t =
     (let modules = (case map_of parser_data ''module'' of None \<Rightarrow> PDict [] | Some v \<Rightarrow> v)
      in case modules of
           PDict items \<Rightarrow> check_module_sources_loop env directory items [] t
         | _ \<Rightarrow> (Inl (no_attribute modules ''items''), t))"

section \<open>URL Extractor and Reachability Prober\<close>

text \<open>\<^verbatim>\<open>extract_urls\<close> creates an empty list and returns it; its body is comments.\<close>

definition extract_urls :: "(string \<times> pyval) list \<Rightarrow> string list" where
  "extract_urls parser_data = []"

fun check_url_reachability_loop ::
  "env \<Rightarrow> string list \<Rightarrow> string list \<Rightarrow> trace \<Rightarrow> (exn + string list) \<times> trace" where
  "check_url_reachability_loop env [] unreachable_urls t = (Inr unreachable_urls, t)"
| "check_url_reachability_loop env (url # urls) unreachable_urls t =
     (let t1 = t @ [Call_head url]
      in case requests_head env url of
           Inr status_code \<Rightarrow>
             if status_code \<ge> 400
             then check_url_reachability_loop env urls (unreachable_urls @ [url]) t1
             else check_url_reachability_loop env urls unreachable_urls t1
         | Inl e \<Rightarrow>
             if exn_class e = RequestException
             then check_url_reachability_loop env urls (unreachable_urls @ [url])
                    (t1 @ [Log WARNING (''Error reaching URL '' @ url @ '': '' @ exn_str e)])
             else (Inl e, t1))"

definition check_url_reachability ::
  "env \<Rightarrow> (string \<times> pyval) list \<Rightarrow> trace \<Rightarrow> (exn + string list) \<times> trace" where
  "check_url_reachability env parser_data t =
     check_url_reachability_loop env (extract_urls parser_data) [] t"

section \<open>File Validator\<close>

text \<open>
  The handler of \<^verbatim>\<open>validate_file\<close>: \<^verbatim>\<open>except Exception as e\<close> around the whole body.
\<close>

definition validate_file_handler ::
  "string \<Rightarrow> exn \<Rightarrow> trace \<Rightarrow> (exn + ValidationResult) \<times> trace" where
  "validate_file_handler path e t =
     (if is_Exception e
      then (Inr \<lparr>file_path = path,
                 issues = [''Error during validation: '' @ exn_str e],
                 is_valid = False\<rparr>,
            t @ [Log ERROR (''Error validating file '' @ path @ '': '' @ exn_str e)])
      else (Inl e, t))"

definition validate_file ::
  "env \<Rightarrow> string \<Rightarrow> string \<Rightarrow> trace \<Rightarrow> (exn + ValidationResult) \<times> trace" where
  "validate_file env directory path t =
     (let t0 = t @ [Log INFO (''Validating file: '' @ path)];
          issues0 = []
      in case parse_terraform_file env path t0 of
           (Inl e, t1) \<Rightarrow> validate_file_handler path e t1
         | (Inr parser_data, t1) \<Rightarrow>
             (case check_module_sources env directory parser_data t1 of
                (Inl e, t2) \<Rightarrow> validate_file_handler path e t2
              | (Inr invalid_sources, t2) \<Rightarrow>
                  (let issues1 =
                         (if invalid_sources \<noteq> []
                          then issues0 @ [''Invalid or unreachable module sources found: '' @
                                          py_str_list invalid_sources]
                          else issues0)
                   in case check_url_reachability env parser_data t2 of
                        (Inl e, t3) \<Rightarrow> validate_file_handler path e t3
                      | (Inr unreachable_urls, t3) \<Rightarrow>
                          (let issues2 =
                                 (if unreachable_urls \<noteq> []
                                  then issues1 @ [''Unreachable URLs found: '' @
                                                  py_str_list unreachable_urls]
                                  else issues1)
                           in (Inr \<lparr>file_path = path, issues = issues2,
                                     is_valid = (length issues2 = 0)\<rparr>, t3)))))"

section \<open>Directory Validator\<close>

text \<open>
  The inner loop \<^verbatim>\<open>for file in files\<close> and the outer loop over \<^verbatim>\<open>os.walk\<close> of
  \<^verbatim>\<open>validate_directory\<close>, with the list \<^verbatim>\<open>results\<close> so far.
\<close>

fun validate_directory_files ::
  "env \<Rightarrow> string \<Rightarrow> string \<Rightarrow> string list \<Rightarrow> ValidationResult list \<Rightarrow> trace
     \<Rightarrow> (exn + ValidationResult list) \<times> trace" where
  "validate_directory_files env directory root [] results t = (Inr results, t)"
| "validate_directory_files env directory root (file # files) results t =
     (if endswith file ''.tf'' then
        (case validate_file env directory (os_path_join root file) t of
           (Inl e, t1) \<Rightarrow> (Inl e, t1)
         | (Inr r, t1) \<Rightarrow> validate_directory_files env directory root files (results @ [r]) t1)
      else validate_directory_files env directory root files results t)"

fun validate_directory_walk ::
  "env \<Rightarrow> string \<Rightarrow> (string \<times> string list \<times> string list) list \<Rightarrow> ValidationResult list \<Rightarrow> trace
     \<Rightarrow> (exn + ValidationResult list) \<times> trace" where
  "validate_directory_walk env directory [] results t = (Inr results, t)"
| "validate_directory_walk env directory ((root, dirs, files) # rest) results t =
     (case validate_directory_files env directory root files results t of
        (Inl e, t1) \<Rightarrow> (Inl e, t1)
      | (Inr results1, t1) \<Rightarrow> validate_directory_walk env directory rest results1 t1)"

text \<open>A tool method is called and a warning is logged when it returns \<^verbatim>\<open>False\<close>.\<close>

definition warn_unless :: "string \<Rightarrow> (exn + bool) \<times> trace \<Rightarrow> (exn + unit) \<times> trace" where
  "warn_unless msg r =
     (case r of
        (Inl e, t) \<Rightarrow> (Inl e, t)
      | (Inr ok, t) \<Rightarrow> (Inr (), if \<not> ok then t @ [Log WARNING msg] else t))"

definition validate_directory ::
  "env \<Rightarrow> string \<Rightarrow> trace \<Rightarrow> (exn + ValidationResult list) \<times> trace" where
  "validate_directory env directory t =
     (let results = [];
          t0 = t @ [Call_listdir directory]
      in case os_listdir env directory of
           Inl e \<Rightarrow> (Inl e, t0)
         | Inr entries \<Rightarrow>
             (let tf_files = filter (\<lambda>f. endswith f ''.tf'') entries
              in if tf_files = []
                 then (Inr results, t0 @ [Log WARNING (''No Terraform files found in '' @ directory)])
                 else
                   (case warn_unless ''Terraform formatting check failed''
                           (run_terraform_fmt env directory t0) of
                      (Inl e, t1) \<Rightarrow> (Inl e, t1)
                    | (Inr _, t1) \<Rightarrow>
                   (case warn_unless ''Terraform init failed''
                           (run_terraform_init env directory t1) of
                      (Inl e, t2) \<Rightarrow> (Inl e, t2)
                    | (Inr _, t2) \<Rightarrow>
                   (case warn_unless ''Terraform syntax validation failed''
                           (run_terraform_validate env directory t2) of
                      (Inl e, t3) \<Rightarrow> (Inl e, t3)
                    | (Inr _, t3) \<Rightarrow>
                   (case warn_unless ''Terraform plan failed''
                           (run_terraform_plan env directory t3) of
                      (Inl e, t4) \<Rightarrow> (Inl e, t4)
                    | (Inr _, t4) \<Rightarrow>
                        validate_directory_walk env directory (os_walk env directory) results
                          (t4 @ [Call_walk directory])))))))"

section \<open>Reference definitions for the stated properties\<close>

text \<open>
  The walk the specification gives for the URL Extractor: every string found in a value,
  through lists and dictionaries at any depth, that has the shape of a URL (here: it
  starts with \<^verbatim>\<open>http://\<close> or \<^verbatim>\<open>https://\<close>). It is compared with
  \<open>extract_urls\<close> below.
\<close>

definition url_shaped :: "string \<Rightarrow> bool" where
  "url_shaped s = (take 7 s = ''http://'' \<or> take 8 s = ''https://'')"

fun spec_extract_urls :: "pyval \<Rightarrow> string list" where
  "spec_extract_urls (PStr s) = (if url_shaped s then [s] else [])"
| "spec_extract_urls (PList xs) = concat (map spec_extract_urls xs)"
| "spec_extract_urls (PDict kvs) = concat (map (\<lambda>kv. spec_extract_urls (snd kv)) kvs)"
| "spec_extract_urls v = []"

text \<open>
  The external calls raise instances of \<^verbatim>\<open>Exception\<close> only, that is errors and no
  interrupt or exit request.
\<close>

definition only_Exception :: "env \<Rightarrow> bool" where
  "only_Exception env =
     ((\<forall>args e. subprocess_run env args = Inl e \<longrightarrow> is_Exception e) \<and>
      (\<forall>p e. hcl2_load env p = Inl e \<longrightarrow> is_Exception e) \<and>
      (\<forall>u e. requests_head env u = Inl e \<longrightarrow> is_Exception e) \<and>
      (\<forall>s e. urlparse_scheme env s = Inl e \<longrightarrow> is_Exception e))"

text \<open>
  The paths of the configuration files that \<^verbatim>\<open>os.walk\<close> finds, in the order of the
  walk: \<^verbatim>\<open>os.path.join(root, file)\<close> for every file name with the extension.
\<close>

definition walked_tf_paths :: "(string \<times> string list \<times> string list) list \<Rightarrow> string list" where
  "walked_tf_paths w =
     concat (map (\<lambda>(root, dirs, files).
                    map (os_path_join root) (filter (\<lambda>f. endswith f ''.tf'') files)) w)"

text \<open>
  The strings that \<^verbatim>\<open>repr\<close> only wraps in single quotes: printable ASCII without
  the single quote and the backslash.
\<close>

definition repr_plain :: "string \<Rightarrow> bool" where
  "repr_plain s =
     (\<forall>c \<in> set s. 32 \<le> (of_char c :: nat) \<and> (of_char c :: nat) < 127 \<and>
                   c \<noteq> CHR 0x27 \<and> c \<noteq> CHR 0x5C)"


text \<open>
  The texts the Module Source Checker has for one module block, as the specification
  lists them: none without a \<^verbatim>\<open>source\<close> string or with an empty one, the
  unreachable-URL text for an \<^verbatim>\<open>http\<close> or \<^verbatim>\<open>https\<close> source whose probe
  returns 400 or more or fails, the local-path text for a source without scheme whose
  joined path does not exist, none for any other scheme. The loop of
  \<open>check_module_sources\<close> is compared with it below.
\<close>

definition module_issue_texts :: "env \<Rightarrow> string \<Rightarrow> string \<times> pyval \<Rightarrow> string list" where
  "module_issue_texts env directory block =
     (case block of
        (module_name, PDict attrs) \<Rightarrow>
          (case map_of attrs ''source'' of
             Some (PStr src) \<Rightarrow>
               if src = [] then []
               else
                 (case urlparse_scheme env src of
                    Inl e \<Rightarrow> []
                  | Inr scheme \<Rightarrow>
                      if scheme = ''http'' \<or> scheme = ''https'' then
                        (case requests_head env src of
                           Inr status_code \<Rightarrow>
                             if status_code < 400 then []
                             else [''Module '' @ module_name @ '': Unreachable source URL '' @ src]
                         | Inl e \<Rightarrow>
                             [''Module '' @ module_name @ '': Unreachable source URL '' @ src])
                      else if scheme = [] then
                        (if os_path_exists env (os_path_join directory src) then []
                         else [''Module '' @ module_name @ '': Local source path does not exist '' @ src])
                      else [])
           | _ \<Rightarrow> [])
      | _ \<Rightarrow> [])"

text \<open>
  The argument lists of the subprocesses a trace has spawned, in order.
\<close>

fun subprocess_calls :: "trace \<Rightarrow> string list list" where
  "subprocess_calls [] = []"
| "subprocess_calls (Call_subprocess_run args # t) = args # subprocess_calls t"
| "subprocess_calls (ev # t) = subprocess_calls t"

section \<open>An example project\<close>

text \<open>
  A project directory \<^verbatim>\<open>proj\<close> with \<^verbatim>\<open>main.tf\<close> and a subdirectory
  \<^verbatim>\<open>modules\<close> holding \<^verbatim>\<open>net.tf\<close> and a file that does not parse. A directory
  \<^verbatim>\<open>site\<close> holds a file \<^verbatim>\<open>notes.txt\<close> and an empty subdirectory named
  \<^verbatim>\<open>mods.tf\<close>. A directory \<^verbatim>\<open>lab\<close> holds three files: in two of them one module
  source is \<^verbatim>\<open>http://[bad/m\<close>, on which \<^verbatim>\<open>urlparse\<close> raises
  \<^verbatim>\<open>ValueError("Invalid IPv6 URL")\<close>; in the third the source holds a backslash. Any
  other directory has a configuration file in its subdirectory only. \<open>demo_scheme\<close>
  takes the text before the first colon as the scheme.
\<close>

definition demo_scheme :: "string \<Rightarrow> exn + string" where
  "demo_scheme s =
     (if s = ''http://[bad/m'' then Inl (Exn Exception ''Invalid IPv6 URL'')
      else if CHR '':'' \<in> set s then Inr (takeWhile (\<lambda>c. c \<noteq> CHR '':'') s)
      else Inr [])"

definition demo_modules :: "(string \<times> pyval) list" where
  "demo_modules =
     [(''vpc'', PDict [(''source'', PStr ''modules/vpc'')]),
      (''gone'', PDict [(''source'', PStr ''http://gone.example/m'')]),
      (''live'', PDict [(''source'', PStr ''https://live.example/m'')]),
      (''down'', PDict [(''source'', PStr ''https://down.example/m'')]),
      (''missing'', PDict [(''source'', PStr ''./missing'')]),
      (''registry'', PDict [(''source'', PStr ''git::ssh://host/repo'')]),
      (''blank'', PDict [(''source'', PStr [])]),
      (''bare'', PDict [(''version'', PStr ''1.0'')])]"

definition demo_small :: "(string \<times> pyval) list" where
  "demo_small =
     [(''module'',
       PDict [(''bare'', PDict [(''version'', PStr ''1.0'')]),
              (''missing'', PDict [(''source'', PStr ''./missing'')]),
              (''vpc'', PDict [(''source'', PStr ''modules/vpc'')]),
              (''registry'', PDict [(''source'', PStr ''git::ssh://host/repo'')]),
              (''blank'', PDict [(''source'', PStr [])])])]"

definition demo_bad :: "(string \<times> pyval) list" where
  "demo_bad =
     [(''module'',
       PDict [(''gone'', PDict [(''source'', PStr ''http://gone.example/m'')]),
              (''missing'', PDict [(''source'', PStr ''./missing'')]),
              (''v6'', PDict [(''source'', PStr ''http://[bad/m'')])])]"

definition demo_bad_first :: "(string \<times> pyval) list" where
  "demo_bad_first =
     [(''module'',
       PDict [(''v6'', PDict [(''source'', PStr ''http://[bad/m'')]),
              (''missing'', PDict [(''source'', PStr ''./missing'')]),
              (''gone'', PDict [(''source'', PStr ''http://gone.example/m'')])])]"

definition demo_odd :: "(string \<times> pyval) list" where
  "demo_odd =
     [(''module'',
       PDict [(''odd'', PDict [(''source'', PStr (''http://gone.example/a'' @ [CHR 0x5C] @ ''b''))])])]"

definition demo_env :: env where
  "demo_env =
     \<lparr>subprocess_run = (\<lambda>args.
          if args = [''terraform'', ''fmt'', ''-check'', ''proj'']
          then Inr \<lparr>returncode = 0, stdout = [], stderr = []\<rparr>
          else if args = [''terraform'', ''init'', ''proj'']
          then Inr \<lparr>returncode = 1, stdout = [], stderr = ''no backend''\<rparr>
          else if args = [''terraform'', ''validate'', ''proj'']
          then Inl (Exn FileNotFoundError ''terraform'')
          else Inl (Exn Exception ''spawn failed'')),
      os_listdir = (\<lambda>d.
          if d = ''proj'' then Inr [''main.tf'', ''README.md'', ''modules'']
          else if d = ''site'' then Inr [''mods.tf'', ''notes.txt'']
          else if d = ''lab'' then Inr [''bad.tf'', ''bad_first.tf'', ''odd.tf'']
          else Inr [''notes.txt'', ''sub'']),
      os_walk = (\<lambda>d.
          if d = ''proj''
          then [(''proj'', [''modules''], [''main.tf'', ''README.md'']),
                (''proj/modules'', [''vpc''], [''net.tf'', ''broken.tf'']),
                (''proj/modules/vpc'', [], [])]
          else if d = ''site''
          then [(''site'', [''mods.tf''], [''notes.txt'']), (''site/mods.tf'', [], [])]
          else if d = ''lab''
          then [(''lab'', [], [''bad.tf'', ''bad_first.tf'', ''odd.tf''])]
          else [(d, [''sub''], [''notes.txt'']), (os_path_join d ''sub'', [], [''x.tf''])]),
      os_path_exists = (\<lambda>p. p \<in> set [''proj/'', ''proj/modules'', ''proj/modules/vpc'',
                                           ''site/'', ''site/mods.tf'', ''lab/'']),
      hcl2_load = (\<lambda>p.
          if p = ''proj/main.tf'' then Inr [(''module'', PDict demo_modules)]
          else if p = ''proj/modules/net.tf''
          then Inr [(''resource'', PList [PStr ''http://gone.example/m''])]
          else if p = ''lab/bad.tf'' then Inr demo_bad
          else if p = ''lab/bad_first.tf'' then Inr demo_bad_first
          else if p = ''lab/odd.tf'' then Inr demo_odd
          else Inl (Exn Exception ''unexpected token'')),
      requests_head = (\<lambda>u.
          if u = ''https://live.example/m'' then Inr 200
          else if u = ''http://gone.example/m'' then Inr 404
          else Inl (Exn RequestException ''connection refused'')),
      urlparse_scheme = demo_scheme\<rparr>"

definition demo_env_no_tool :: env where
  "demo_env_no_tool =
     demo_env\<lparr>subprocess_run := (\<lambda>args. Inl (Exn FileNotFoundError ''terraform'')),
              os_listdir := (\<lambda>d. Inr [])\<rparr>"

section \<open>Lemmas about the loops\<close>

lemmas demo_eval = demo_env_def demo_scheme_def check_module_sources_body_def os_path_join_def Let_def

lemmas demo_small_eval = demo_small_def demo_env_def demo_scheme_def check_module_sources_body_def
  os_path_join_def Let_def


lemmas py_str_eval = py_str_list_def py_repr_def repr_quote_def repr_char_def hexdigit_def Let_def

text \<open>
  The loop over the module blocks adds to the list and to the trace it is given and
  reads neither.
\<close>

lemma body_shift:
  "check_module_sources_body env d n c acc t =
     (case check_module_sources_body env d n c [] [] of
        (Inl e, evs) \<Rightarrow> (Inl e, t @ evs)
      | (Inr r, evs) \<Rightarrow> (Inr (acc @ r), t @ evs))"
  unfolding check_module_sources_body_def Let_def
  by (simp split: pyval.splits option.splits sum.splits)

lemma loop_shift:
  "check_module_sources_loop env d ms acc t =
     (case check_module_sources_loop env d ms [] [] of
        (Inl e, evs) \<Rightarrow> (Inl e, t @ evs)
      | (Inr r, evs) \<Rightarrow> (Inr (acc @ r), t @ evs))"
proof (induction ms arbitrary: acc t)
  case Nil
  show ?case by simp
next
  case (Cons m ms)
  obtain n c where m: "m = (n, c)" by (cases m)
  obtain r0 evs0 where b0: "check_module_sources_body env d n c [] [] = (r0, evs0)"
    by (cases "check_module_sources_body env d n c [] []")
  have b: "check_module_sources_body env d n c acc t =
     (case r0 of Inl e \<Rightarrow> (Inl e, t @ evs0) | Inr r \<Rightarrow> (Inr (acc @ r), t @ evs0))"
    using body_shift [of env d n c acc t] b0 by (simp split: sum.splits)
  show ?case
  proof (cases r0)
    case (Inl e)
    with b b0 m show ?thesis by simp
  next
    case (Inr r)
    obtain r1 evs1 where l1: "check_module_sources_loop env d ms [] [] = (r1, evs1)"
      by (cases "check_module_sources_loop env d ms [] []")
    have l_a: "check_module_sources_loop env d ms (acc @ r) (t @ evs0) =
       (case r1 of Inl e \<Rightarrow> (Inl e, t @ evs0 @ evs1) | Inr x \<Rightarrow> (Inr (acc @ r @ x), t @ evs0 @ evs1))"
      using Cons.IH [of "acc @ r" "t @ evs0"] l1 by (simp split: sum.splits)
    have l_b: "check_module_sources_loop env d ms r evs0 =
       (case r1 of Inl e \<Rightarrow> (Inl e, evs0 @ evs1) | Inr x \<Rightarrow> (Inr (r @ x), evs0 @ evs1))"
      using Cons.IH [of r evs0] l1 by (simp split: sum.splits)
    from Inr b b0 m l_a l_b show ?thesis by (simp split: sum.splits)
  qed
qed

lemma loop_append:
  "check_module_sources_loop env d (xs @ ys) acc t =
     (case check_module_sources_loop env d xs acc t of
        (Inl e, t1) \<Rightarrow> (Inl e, t1)
      | (Inr a, t1) \<Rightarrow> check_module_sources_loop env d ys a t1)"
  by (induction xs arbitrary: acc t) (auto split: prod.splits sum.splits)

lemma loop_around:
  assumes "check_module_sources_loop env d pre [] [] = (Inr a, ta)"
    and "check_module_sources_body env d n c [] [] = (Inr x, tx)"
    and "check_module_sources_loop env d post [] [] = (Inr b, tb)"
  shows "check_module_sources_loop env d (pre @ (n, c) # post) [] t =
           (Inr (a @ x @ b), t @ ta @ tx @ tb)"
proof -
  have 1: "check_module_sources_loop env d pre [] t = (Inr a, t @ ta)"
    using loop_shift [of env d pre "[]" t] assms(1) by simp
  have 2: "check_module_sources_body env d n c a (t @ ta) = (Inr (a @ x), t @ ta @ tx)"
    using body_shift [of env d n c a "t @ ta"] assms(2) by simp
  have 3: "check_module_sources_loop env d post (a @ x) (t @ ta @ tx) =
             (Inr (a @ x @ b), t @ ta @ tx @ tb)"
    using loop_shift [of env d post "a @ x" "t @ ta @ tx"] assms(3) by simp
  show ?thesis by (simp add: loop_append 1 2 3)
qed

lemma sources_around:
  assumes "map_of pd ''module'' = Some (PDict (pre @ (n, c) # post))"
    and "check_module_sources_loop env d pre [] [] = (Inr a, ta)"
    and "check_module_sources_body env d n c [] [] = (Inr x, tx)"
    and "check_module_sources_loop env d post [] [] = (Inr b, tb)"
  shows "check_module_sources env d pd t = (Inr (a @ x @ b), t @ ta @ tx @ tb)"
  using assms(1) loop_around [OF assms(2-4)]
  by (simp add: check_module_sources_def)

lemma sources_shift:
  "check_module_sources env d pd t =
     (case check_module_sources env d pd [] of (r, evs) \<Rightarrow> (r, t @ evs))"
proof (cases "case map_of pd ''module'' of None \<Rightarrow> PDict [] | Some v \<Rightarrow> v")
  case (PDict items)
  obtain r evs where l: "check_module_sources_loop env d items [] [] = (r, evs)"
    by (cases "check_module_sources_loop env d items [] []")
  with loop_shift [of env d items "[]" t]
  have "check_module_sources_loop env d items [] t = (r, t @ evs)"
    by (cases r) simp_all
  with l PDict show ?thesis by (simp add: check_module_sources_def)
qed (simp_all add: check_module_sources_def)

text \<open>
  When the loop returns, its list is the texts of the module blocks in the order of
  the dictionary.
\<close>

lemma body_texts:
  assumes "check_module_sources_body env d n c [] [] = (Inr r, evs)"
  shows "r = module_issue_texts env d (n, c)"
proof (cases c)
  case (PDict attrs)
  note defs = check_module_sources_body_def module_issue_texts_def Let_def
  show ?thesis
  proof (cases "map_of attrs ''source''")
    case None
    with PDict assms show ?thesis by (simp add: defs)
  next
    case (Some v)
    show ?thesis
    proof (cases v)
      case (PStr src)
      show ?thesis
      proof (cases "src = []")
        case True
        with PDict Some PStr assms show ?thesis by (simp add: defs)
      next
        case False
        show ?thesis
        proof (cases "urlparse_scheme env src")
          case (Inl e)
          with PDict Some PStr False assms show ?thesis by (simp add: defs)
        next
          case (Inr scheme)
          consider (remote) "scheme = ''http'' \<or> scheme = ''https''"
            | (local) "scheme = []"
            | (other) "scheme \<noteq> ''http''" "scheme \<noteq> ''https''" "scheme \<noteq> []"
            by blast
          then show ?thesis
          proof cases
            case remote
            then have sch: "scheme \<in> set [''http'', ''https'']" by simp
            show ?thesis
            proof (cases "requests_head env src")
              case (Inl e)
              from PDict Some PStr False \<open>urlparse_scheme env src = Inr scheme\<close> sch Inl assms
              have "exn_class e = RequestException \<and>
                    r = [''Module '' @ n @ '': Unreachable source URL '' @ src]"
                by (cases "exn_class e = RequestException") (simp_all only: defs, simp_all)
              with PDict Some PStr False \<open>urlparse_scheme env src = Inr scheme\<close> remote Inl
              show ?thesis by (simp only: module_issue_texts_def, simp)
            next
              case (Inr code)
              from PDict Some PStr False \<open>urlparse_scheme env src = Inr scheme\<close> sch Inr assms
              have "r = (if code < 400 then []
                         else [''Module '' @ n @ '': Unreachable source URL '' @ src])"
                by (cases "code < 400") (simp_all only: defs, simp_all)
              with PDict Some PStr False \<open>urlparse_scheme env src = Inr scheme\<close> remote Inr
              show ?thesis by (simp only: module_issue_texts_def, simp)
            qed
          next
            case local
            with PDict Some PStr False \<open>urlparse_scheme env src = Inr scheme\<close> assms
            show ?thesis
              by (cases "os_path_exists env (os_path_join d src)") (simp_all add: defs)
          next
            case other
            with PDict Some PStr False \<open>urlparse_scheme env src = Inr scheme\<close> assms
            show ?thesis by (simp add: defs)
          qed
        qed
      qed
    next
      case PNone
      with PDict Some assms show ?thesis by (simp add: defs)
    next
      case (PBool b)
      with PDict Some assms show ?thesis by (cases b) (simp_all add: defs)
    next
      case (PInt i)
      with PDict Some assms show ?thesis by (cases "i = 0") (simp_all add: defs)
    next
      case (PList vs)
      with PDict Some assms show ?thesis by (cases "vs = []") (simp_all add: defs)
    next
      case (PDict kvs)
      with \<open>c = PDict attrs\<close> Some assms show ?thesis by (cases "kvs = []") (simp_all add: defs)
    qed
  qed
qed (use assms in \<open>simp_all add: check_module_sources_body_def\<close>)

lemma loop_texts:
  "check_module_sources_loop env d items [] [] = (Inr xs, evs) \<Longrightarrow>
     xs = concat (map (module_issue_texts env d) items)"
proof (induction items arbitrary: xs evs)
  case Nil
  then show ?case by simp
next
  case (Cons m ms)
  obtain n c where m: "m = (n, c)" by (cases m)
  obtain r0 t0 where b: "check_module_sources_body env d n c [] [] = (r0, t0)"
    by (cases "check_module_sources_body env d n c [] []")
  obtain r1 t1 where l: "check_module_sources_loop env d ms [] [] = (r1, t1)"
    by (cases "check_module_sources_loop env d ms [] []")
  from Cons.prems m b obtain r where r0: "r0 = Inr r"
    by (cases r0) simp_all
  have shift: "check_module_sources_loop env d ms r t0 =
     (case r1 of Inl e \<Rightarrow> (Inl e, t0 @ t1) | Inr x \<Rightarrow> (Inr (r @ x), t0 @ t1))"
    using loop_shift [of env d ms r t0] l by (simp split: sum.splits)
  from Cons.prems m b r0 shift obtain x where r1: "r1 = Inr x" and xs: "xs = r @ x"
    by (cases r1) simp_all
  from b r0 have "r = module_issue_texts env d (n, c)"
    by (simp add: body_texts)
  moreover from l r1 have "x = concat (map (module_issue_texts env d) ms)"
    by (simp add: Cons.IH)
  ultimately show ?case using xs m by simp
qed

lemma check_url_reachability_nothing:
  "check_url_reachability env pd t = (Inr [], t)"
  by (simp add: check_url_reachability_def extract_urls_def)

lemma validate_file_parsed:
  assumes "hcl2_load env p = Inr pd"
    and "check_module_sources env d pd (t @ [Log INFO (''Validating file: '' @ p), Call_open p])
           = (Inr xs, t')"
  shows "validate_file env d p t =
           (Inr \<lparr>file_path = p,
                 issues = (if xs \<noteq> []
                           then [''Invalid or unreachable module sources found: '' @ py_str_list xs]
                           else []),
                 is_valid = (xs = [])\<rparr>, t')"
  using assms
  by (simp add: validate_file_def parse_terraform_file_def check_url_reachability_nothing Let_def)

lemma validate_file_shift:
  "validate_file env d p t = (case validate_file env d p [] of (r, evs) \<Rightarrow> (r, t @ evs))"
proof (cases "hcl2_load env p")
  case (Inl e)
  then show ?thesis
    by (cases "is_Exception e")
       (simp_all add: validate_file_def parse_terraform_file_def validate_file_handler_def Let_def)
next
  case (Inr pd)
  let ?pre = "[Log INFO (''Validating file: '' @ p), Call_open p]"
  obtain r evs where c: "check_module_sources env d pd [] = (r, evs)"
    by (cases "check_module_sources env d pd []")
  have c1: "check_module_sources env d pd (t @ ?pre) = (r, t @ ?pre @ evs)"
    using sources_shift [of env d pd "t @ ?pre"] c by simp
  have c2: "check_module_sources env d pd ?pre = (r, ?pre @ evs)"
    using sources_shift [of env d pd ?pre] c by simp
  from Inr c1 c2 show ?thesis
    by (cases r)
       (simp_all add: validate_file_def parse_terraform_file_def validate_file_handler_def
          check_url_reachability_nothing)
qed

lemma validate_file_result_any_trace:
  "fst (validate_file env d p t) = fst (validate_file env d p [])"
  using validate_file_shift [of env d p t] by (simp split: prod.splits)

text \<open>
  The result of the checks depends on the environment through the parser, the probe,
  the existence test and the scheme only.
\<close>

lemma body_env_cong:
  assumes "requests_head env1 = requests_head env2"
    and "os_path_exists env1 = os_path_exists env2"
    and "urlparse_scheme env1 = urlparse_scheme env2"
  shows "check_module_sources_body env1 d n c acc t = check_module_sources_body env2 d n c acc t"
  unfolding check_module_sources_body_def assms by (rule refl)

lemma loop_env_cong:
  assumes "requests_head env1 = requests_head env2"
    and "os_path_exists env1 = os_path_exists env2"
    and "urlparse_scheme env1 = urlparse_scheme env2"
  shows "check_module_sources_loop env1 d ms acc t = check_module_sources_loop env2 d ms acc t"
  by (induction ms arbitrary: acc t) (auto simp: body_env_cong [OF assms] split: prod.splits sum.splits)

lemma validate_file_env_cong:
  assumes "hcl2_load env1 = hcl2_load env2"
    and "requests_head env1 = requests_head env2"
    and "os_path_exists env1 = os_path_exists env2"
    and "urlparse_scheme env1 = urlparse_scheme env2"
  shows "validate_file env1 d p t = validate_file env2 d p t"
proof -
  have s: "check_module_sources env1 d pd t' = check_module_sources env2 d pd t'" for pd t'
    unfolding check_module_sources_def loop_env_cong [OF assms(2-4)] by (rule refl)
  have u: "check_url_reachability env1 pd t' = check_url_reachability env2 pd t'" for pd t'
    by (simp add: check_url_reachability_nothing)
  have l: "parse_terraform_file env1 p t' = parse_terraform_file env2 p t'" for t'
    unfolding parse_terraform_file_def assms(1) by (rule refl)
  show ?thesis
    unfolding validate_file_def l s u by (rule refl)
qed

text \<open>
  When the external calls raise instances of \<^verbatim>\<open>Exception\<close> only, so do the checks,
  and the handlers catch them.
\<close>

lemma body_raises_Exception:
  assumes "only_Exception env"
    and "check_module_sources_body env d n c acc t = (Inl e, t')"
  shows "is_Exception e"
  using assms
  unfolding check_module_sources_body_def only_Exception_def Let_def no_attribute_def
  by (auto simp: is_Exception_def split: pyval.splits option.splits sum.splits if_splits)

lemma loop_raises_Exception:
  assumes "only_Exception env"
  shows "check_module_sources_loop env d ms acc t = (Inl e, t') \<Longrightarrow> is_Exception e"
proof (induction ms arbitrary: acc t)
  case Nil
  then show ?case by simp
next
  case (Cons m ms)
  obtain n c where m: "m = (n, c)" by (cases m)
  from Cons.prems m show ?case
    by (auto split: prod.splits sum.splits
             dest: body_raises_Exception [OF assms] Cons.IH)
qed

lemma sources_raises_Exception:
  assumes "only_Exception env"
    and "check_module_sources env d pd t = (Inl e, t')"
  shows "is_Exception e"
  using assms(2) loop_raises_Exception [OF assms(1)]
  by (auto simp: check_module_sources_def no_attribute_def is_Exception_def Let_def
           split: pyval.splits option.splits)

lemma validate_file_total:
  assumes "only_Exception env"
  shows "\<exists>r t'. validate_file env d p t = (Inr r, t') \<and> file_path r = p"
proof (cases "hcl2_load env p")
  case (Inl e)
  with assms have "is_Exception e" by (simp add: only_Exception_def)
  with Inl show ?thesis
    by (simp add: validate_file_def parse_terraform_file_def validate_file_handler_def)
next
  case (Inr pd)
  let ?t0 = "t @ [Log INFO (''Validating file: '' @ p), Call_open p]"
  obtain r t1 where c: "check_module_sources env d pd ?t0 = (r, t1)"
    by (cases "check_module_sources env d pd ?t0")
  show ?thesis
  proof (cases r)
    case (Inl e)
    with c sources_raises_Exception [OF assms] have "is_Exception e" by blast
    with Inl c Inr show ?thesis
      by (simp add: validate_file_def parse_terraform_file_def validate_file_handler_def)
  next
    case (Inr xs)
    with c \<open>hcl2_load env p = Inr pd\<close> show ?thesis
      by (simp add: validate_file_def parse_terraform_file_def check_url_reachability_nothing)
  qed
qed

lemma tool_runner_total:
  assumes "only_Exception env"
  shows "\<exists>ok t'. run_terraform_fmt env d t = (Inr ok, t')"
    and "\<exists>ok t'. run_terraform_init env d t = (Inr ok, t')"
    and "\<exists>ok t'. run_terraform_validate env d t = (Inr ok, t')"
    and "\<exists>ok t'. run_terraform_plan env d t = (Inr ok, t')"
  using assms
  unfolding only_Exception_def is_Exception_def run_terraform_fmt_def run_terraform_init_def
    run_terraform_validate_def run_terraform_plan_def Let_def
  by (auto split: sum.splits exn_class.splits)

lemma warn_unless_total:
  assumes "\<exists>ok t'. r = (Inr ok, t')"
  shows "\<exists>t'. warn_unless msg r = (Inr (), t')"
  using assms by (auto simp: warn_unless_def)

lemma validate_directory_tools_then_walk:
  assumes "only_Exception env"
    and "os_listdir env d = Inr entries"
    and "\<exists>f \<in> set entries. endswith f ''.tf''"
  shows "\<exists>t4. validate_directory env d t =
                 validate_directory_walk env d (os_walk env d) [] (t4 @ [Call_walk d])"
proof -
  from assms(3) have gate: "filter (\<lambda>f. endswith f ''.tf'') entries \<noteq> []"
    by (simp add: filter_empty_conv)
  let ?t0 = "t @ [Call_listdir d]"
  obtain t1 where 1: "warn_unless ''Terraform formatting check failed''
                        (run_terraform_fmt env d ?t0) = (Inr (), t1)"
    using warn_unless_total [OF tool_runner_total(1) [OF assms(1)]] by blast
  obtain t2 where 2: "warn_unless ''Terraform init failed''
                        (run_terraform_init env d t1) = (Inr (), t2)"
    using warn_unless_total [OF tool_runner_total(2) [OF assms(1)]] by blast
  obtain t3 where 3: "warn_unless ''Terraform syntax validation failed''
                        (run_terraform_validate env d t2) = (Inr (), t3)"
    using warn_unless_total [OF tool_runner_total(3) [OF assms(1)]] by blast
  obtain t4 where 4: "warn_unless ''Terraform plan failed''
                        (run_terraform_plan env d t3) = (Inr (), t4)"
    using warn_unless_total [OF tool_runner_total(4) [OF assms(1)]] by blast
  from gate assms(2) 1 2 3 4
  have "validate_directory env d t =
          validate_directory_walk env d (os_walk env d) [] (t4 @ [Call_walk d])"
    by (simp add: validate_directory_def)
  then show ?thesis by blast
qed

lemma files_loop_results:
  assumes "only_Exception env"
  shows "\<exists>rs t'. validate_directory_files env d root files results t = (Inr (results @ rs), t') \<and>
           list_all2 (\<lambda>r p. fst (validate_file env d p []) = Inr r \<and> file_path r = p) rs
             (map (os_path_join root) (filter (\<lambda>f. endswith f ''.tf'') files))"
proof (induction files arbitrary: results t)
  case Nil
  show ?case by simp
next
  case (Cons f fs)
  show ?case
  proof (cases "endswith f ''.tf''")
    case False
    with Cons.IH [of results t] show ?thesis by simp
  next
    case True
    let ?p = "os_path_join root f"
    obtain r t1 where v: "validate_file env d ?p t = (Inr r, t1)" and fp: "file_path r = ?p"
      using validate_file_total [OF assms, of d ?p t] by blast
    from v have v0: "fst (validate_file env d ?p []) = Inr r"
      using validate_file_result_any_trace [of env d ?p t] by simp
    obtain rs t' where
      l: "validate_directory_files env d root fs (results @ [r]) t1 = (Inr ((results @ [r]) @ rs), t')"
      and a: "list_all2 (\<lambda>r p. fst (validate_file env d p []) = Inr r \<and> file_path r = p) rs
                (map (os_path_join root) (filter (\<lambda>f. endswith f ''.tf'') fs))"
      using Cons.IH [of "results @ [r]" t1] by blast
    have "validate_directory_files env d root (f # fs) results t = (Inr (results @ (r # rs)), t')"
      using True v l by simp
    moreover have "list_all2 (\<lambda>r p. fst (validate_file env d p []) = Inr r \<and> file_path r = p) (r # rs)
                (map (os_path_join root) (filter (\<lambda>f. endswith f ''.tf'') (f # fs)))"
      using True v0 fp a by simp
    ultimately show ?thesis by blast
  qed
qed

lemma walk_loop_results:
  assumes "only_Exception env"
  shows "\<exists>rs t'. validate_directory_walk env d w results t = (Inr (results @ rs), t') \<and>
           list_all2 (\<lambda>r p. fst (validate_file env d p []) = Inr r \<and> file_path r = p) rs
             (walked_tf_paths w)"
proof (induction w arbitrary: results t)
  case Nil
  show ?case by (simp add: walked_tf_paths_def)
next
  case (Cons x w)
  obtain root dirs files where x: "x = (root, dirs, files)" by (cases x)
  obtain rs1 t1 where
    f: "validate_directory_files env d root files results t = (Inr (results @ rs1), t1)"
    and a1: "list_all2 (\<lambda>r p. fst (validate_file env d p []) = Inr r \<and> file_path r = p) rs1
               (map (os_path_join root) (filter (\<lambda>f. endswith f ''.tf'') files))"
    using files_loop_results [OF assms, of d root files results t] by blast
  obtain rs2 t2 where
    l: "validate_directory_walk env d w (results @ rs1) t1 = (Inr ((results @ rs1) @ rs2), t2)"
    and a2: "list_all2 (\<lambda>r p. fst (validate_file env d p []) = Inr r \<and> file_path r = p) rs2
               (walked_tf_paths w)"
    using Cons.IH [of "results @ rs1" t1] by blast
  have "validate_directory_walk env d (x # w) results t = (Inr (results @ (rs1 @ rs2)), t2)"
    using x f l by simp
  moreover have "list_all2 (\<lambda>r p. fst (validate_file env d p []) = Inr r \<and> file_path r = p)
                   (rs1 @ rs2) (walked_tf_paths (x # w))"
    using x a1 a2 by (simp add: walked_tf_paths_def list_all2_appendI)
  ultimately show ?case by blast
qed

lemma demo_env_only_Exception: "only_Exception demo_env"
  by (auto simp: only_Exception_def demo_env_def demo_scheme_def is_Exception_def split: if_splits)

text \<open>
  \<^verbatim>\<open>repr\<close> leaves a plain string as it is between single quotes, so the aggregate
  issue of \<open>validate_file\<close> contains the text of each module with a plain name and
  source word for word.
\<close>

lemma repr_char_plain:
  assumes "32 \<le> (of_char c :: nat)" "(of_char c :: nat) < 127" "c \<noteq> CHR 0x27" "c \<noteq> CHR 0x5C"
  shows "repr_char (CHR 0x27) c = [c]"
proof -
  have "c \<noteq> CHR 0x09" "c \<noteq> CHR 0x0A" "c \<noteq> CHR 0x0D"
    using assms(1) by auto
  with assms show ?thesis
    by (simp add: repr_char_def Let_def)
qed

lemma py_repr_plain:
  assumes "repr_plain s"
  shows "py_repr s = [CHR 0x27] @ s @ [CHR 0x27]"
proof -
  from assms have q: "repr_quote s = CHR 0x27"
    by (auto simp: repr_quote_def repr_plain_def)
  from assms have "concat (map (repr_char (CHR 0x27)) s) = s"
    by (induction s) (simp_all add: repr_plain_def repr_char_plain)
  with q show ?thesis by (simp add: py_repr_def Let_def)
qed

lemma join_comma_Cons:
  "ws \<noteq> [] \<Longrightarrow> join_comma (z # ws) = z @ '', '' @ join_comma ws"
  by (cases ws) simp_all






lemma join_comma_pair:
  "\<exists>p r. join_comma (us @ x # y # vs) = p @ x @ '', '' @ y @ r"
proof (induction us)
  case Nil
  have "\<exists>r. join_comma (y # vs) = y @ r"
    by (cases vs) simp_all
  then obtain r where "join_comma (y # vs) = y @ r" by blast
  then have "join_comma ([] @ x # y # vs) = [] @ x @ '', '' @ y @ r" by simp
  then show ?case by blast
next
  case (Cons z zs)
  then obtain p r where "join_comma (zs @ x # y # vs) = p @ x @ '', '' @ y @ r" by blast
  then have "join_comma ((z # zs) @ x # y # vs) = (z @ '', '' @ p) @ x @ '', '' @ y @ r"
    by (simp add: join_comma_Cons)
  then show ?case by blast
qed

lemma py_str_list_pair:
  assumes "repr_plain x" and "repr_plain y"
  shows "\<exists>p r. py_str_list (us @ x # y # vs) =
                 p @ x @ [CHR 0x27] @ '', '' @ [CHR 0x27] @ y @ r"
proof -
  obtain p r where
    "join_comma (map py_repr us @ py_repr x # py_repr y # map py_repr vs) =
       p @ py_repr x @ '', '' @ py_repr y @ r"
    using join_comma_pair [of "map py_repr us" "py_repr x" "py_repr y" "map py_repr vs"] by blast
  then have "py_str_list (us @ x # y # vs) =
               (''['' @ p @ [CHR 0x27]) @ x @ [CHR 0x27] @ '', '' @ [CHR 0x27] @ y @ ([CHR 0x27] @ r @ '']'')"
    by (simp add: py_str_list_def py_repr_plain [OF assms(1)] py_repr_plain [OF assms(2)])
  then show ?thesis by blast
qed

text \<open>
  When no name that \<^verbatim>\<open>os.listdir\<close> returns ends with \<^verbatim>\<open>.tf\<close>, be it the name
  of a file or of a directory, \<open>validate_directory\<close> lists the directory, logs one
  warning and returns the empty list.
\<close>

lemma validate_directory_no_tf_entry:
  assumes "os_listdir env d = Inr entries"
    and "\<forall>f \<in> set entries. \<not> endswith f ''.tf''"
  shows "validate_directory env d t =
           (Inr [], t @ [Call_listdir d, Log WARNING (''No Terraform files found in '' @ d)])"
proof -
  from assms(2) have "filter (\<lambda>f. endswith f ''.tf'') entries = []"
    by (simp add: filter_empty_conv)
  with assms(1) show ?thesis
    by (simp add: validate_directory_def)
qed

section \<open>Properties\<close>

subsection \<open>C6: the four tool operations return a boolean and raise nothing\<close>

text \<open>
  C6. Each of \<open>run_terraform_fmt\<close>, \<open>run_terraform_init\<close>, \<open>run_terraform_validate\<close>
  and \<open>run_terraform_plan\<close> returns \<^verbatim>\<open>True\<close> exactly when the subprocess completes with
  exit status 0. A non-zero exit status gives \<^verbatim>\<open>False\<close>, and so does every error raised by
  the spawn (the binary not found, \<^verbatim>\<open>CalledProcessError\<close>, any other instance of
  \<^verbatim>\<open>Exception\<close>): the method returns, it does not raise.
\<close>

theorem tool_runner_boolean:
  "(subprocess_run env [''terraform'', ''fmt'', ''-check'', d] = Inr r \<longrightarrow>
      fst (run_terraform_fmt env d t) = Inr (returncode r = 0)) \<and>
   (subprocess_run env [''terraform'', ''fmt'', ''-check'', d] = Inl e \<and> is_Exception e \<longrightarrow>
      fst (run_terraform_fmt env d t) = Inr False) \<and>
   (subprocess_run env [''terraform'', ''init'', d] = Inr r \<longrightarrow>
      fst (run_terraform_init env d t) = Inr (returncode r = 0)) \<and>
   (subprocess_run env [''terraform'', ''init'', d] = Inl e \<and> is_Exception e \<longrightarrow>
      fst (run_terraform_init env d t) = Inr False) \<and>
   (subprocess_run env [''terraform'', ''validate'', d] = Inr r \<longrightarrow>
      fst (run_terraform_validate env d t) = Inr (returncode r = 0)) \<and>
   (subprocess_run env [''terraform'', ''validate'', d] = Inl e \<and> is_Exception e \<longrightarrow>
      fst (run_terraform_validate env d t) = Inr False) \<and>
   (subprocess_run env [''terraform'', ''plan'', d] = Inr r \<longrightarrow>
      fst (run_terraform_plan env d t) = Inr (returncode r = 0)) \<and>
   (subprocess_run env [''terraform'', ''plan'', d] = Inl e \<and> is_Exception e \<longrightarrow>
      fst (run_terraform_plan env d t) = Inr False)"
  unfolding run_terraform_fmt_def run_terraform_init_def run_terraform_validate_def
    run_terraform_plan_def Let_def is_Exception_def
  by (simp split: exn_class.splits)

theorem tool_runner_boolean_witness:
  "fst (run_terraform_fmt demo_env ''proj'' []) = Inr True \<and>
   fst (run_terraform_init demo_env ''proj'' []) = Inr False \<and>
   fst (run_terraform_validate demo_env ''proj'' []) = Inr False \<and>
   fst (run_terraform_plan demo_env ''proj'' []) = Inr False"
proof -
  have fmt: "subprocess_run demo_env [''terraform'', ''fmt'', ''-check'', ''proj'']
               = Inr \<lparr>returncode = 0, stdout = [], stderr = []\<rparr>"
    by (simp add: demo_env_def)
  have init: "subprocess_run demo_env [''terraform'', ''init'', ''proj'']
               = Inr \<lparr>returncode = 1, stdout = [], stderr = ''no backend''\<rparr>"
    by (simp add: demo_env_def)
  have val: "subprocess_run demo_env [''terraform'', ''validate'', ''proj'']
               = Inl (Exn FileNotFoundError ''terraform'') \<and>
             is_Exception (Exn FileNotFoundError ''terraform'')"
    by (simp add: demo_env_def is_Exception_def)
  have plan: "subprocess_run demo_env [''terraform'', ''plan'', ''proj'']
               = Inl (Exn Exception ''spawn failed'') \<and>
              is_Exception (Exn Exception ''spawn failed'')"
    by (simp add: demo_env_def is_Exception_def)
  from fmt tool_runner_boolean
         [of demo_env "''proj''" "\<lparr>returncode = 0, stdout = [], stderr = []\<rparr>" "[]"]
  have 1: "fst (run_terraform_fmt demo_env ''proj'' []) = Inr True" by simp
  from init tool_runner_boolean
         [of demo_env "''proj''" "\<lparr>returncode = 1, stdout = [], stderr = ''no backend''\<rparr>" "[]"]
  have 2: "fst (run_terraform_init demo_env ''proj'' []) = Inr False" by simp
  from val tool_runner_boolean
         [of demo_env "''proj''" _ "[]" "Exn FileNotFoundError ''terraform''"]
  have 3: "fst (run_terraform_validate demo_env ''proj'' []) = Inr False" by blast
  from plan tool_runner_boolean
         [of demo_env "''proj''" _ "[]" "Exn Exception ''spawn failed''"]
  have 4: "fst (run_terraform_plan demo_env ''proj'' []) = Inr False" by blast
  from 1 2 3 4 show ?thesis by simp
qed

subsection \<open>C1: is_valid holds exactly when there is no issue\<close>

text \<open>
  C1. Whenever \<open>validate_file\<close> returns a \<open>ValidationResult\<close>, on the path where the
  file parses as on the path of the exception handler, its \<open>is_valid\<close> is true if and
  only if its \<open>issues\<close> list is empty.
\<close>

theorem validate_file_is_valid_iff:
  "fst (validate_file env d p t) = Inr r \<Longrightarrow> is_valid r = (issues r = [])"
  unfolding validate_file_def validate_file_handler_def Let_def
  by (auto split: prod.splits sum.splits if_splits)

theorem validate_file_is_valid_iff_witness:
  "fst (validate_file demo_env ''proj'' ''proj/modules/broken.tf'' []) =
     Inr \<lparr>file_path = ''proj/modules/broken.tf'',
          issues = [''Error during validation: unexpected token''], is_valid = False\<rparr> \<and>
   is_valid \<lparr>file_path = ''proj/modules/broken.tf'',
             issues = [''Error during validation: unexpected token''], is_valid = False\<rparr> =
     (issues \<lparr>file_path = ''proj/modules/broken.tf'',
              issues = [''Error during validation: unexpected token''], is_valid = False\<rparr> = []) \<and>
   fst (validate_file demo_env ''proj'' ''proj/modules/net.tf'' []) =
     Inr \<lparr>file_path = ''proj/modules/net.tf'', issues = [], is_valid = True\<rparr> \<and>
   is_valid \<lparr>file_path = ''proj/modules/net.tf'', issues = [], is_valid = True\<rparr> =
     (issues \<lparr>file_path = ''proj/modules/net.tf'', issues = [], is_valid = True\<rparr> = [])"
proof -
  have 1: "fst (validate_file demo_env ''proj'' ''proj/modules/broken.tf'' []) =
     Inr \<lparr>file_path = ''proj/modules/broken.tf'',
          issues = [''Error during validation: unexpected token''], is_valid = False\<rparr>"
    by (simp add: validate_file_def parse_terraform_file_def validate_file_handler_def
          demo_env_def is_Exception_def)
  have 2: "fst (validate_file demo_env ''proj'' ''proj/modules/net.tf'' []) =
     Inr \<lparr>file_path = ''proj/modules/net.tf'', issues = [], is_valid = True\<rparr>"
    by (simp add: validate_file_def parse_terraform_file_def check_module_sources_def
          check_url_reachability_def extract_urls_def demo_env_def)
  from 1 2 validate_file_is_valid_iff [OF 1] validate_file_is_valid_iff [OF 2]
  show ?thesis by blast
qed

subsection \<open>C2: an unreachable remote module source\<close>




subsection \<open>C3: a directory without configuration files\<close>

text \<open>
  C3. The property says that a target directory with no file directly under it whose
  name ends with \<^verbatim>\<open>.tf\<close> gets the empty result and no subcommand. The code tests the
  names \<^verbatim>\<open>os.listdir\<close> returns, and these include subdirectories: in the directory
  \<^verbatim>\<open>site\<close>, whose entries are the file \<^verbatim>\<open>notes.txt\<close> and the empty subdirectory
  \<^verbatim>\<open>mods.tf\<close>, \<open>validate_directory\<close> returns the empty list after it has spawned all four
  subcommands. The comment on that test reads \<^verbatim>\<open>Check if directory contains .tf files\<close>.
\<close>

theorem validate_directory_gate_counts_directories:
  "os_listdir demo_env ''site'' = Inr [''mods.tf'', ''notes.txt''] \<and>
   os_walk demo_env ''site'' = [(''site'', [''mods.tf''], [''notes.txt'']), (''site/mods.tf'', [], [])] \<and>
   fst (validate_directory demo_env ''site'' []) = Inr [] \<and>
   subprocess_calls (snd (validate_directory demo_env ''site'' [])) =
     [[''terraform'', ''fmt'', ''-check'', ''site''],
      [''terraform'', ''init'', ''site''],
      [''terraform'', ''validate'', ''site''],
      [''terraform'', ''plan'', ''site'']]"
proof -
  have l: "os_listdir demo_env ''site'' = Inr [''mods.tf'', ''notes.txt'']"
    and w: "os_walk demo_env ''site'' =
              [(''site'', [''mods.tf''], [''notes.txt'']), (''site/mods.tf'', [], [])]"
    by (simp_all add: demo_env_def)
  have r: "subprocess_run demo_env args = Inl (Exn Exception ''spawn failed'')"
    if "args = [''terraform'', ''fmt'', ''-check'', ''site''] \<or> args = [''terraform'', ''init'', ''site''] \<or>
        args = [''terraform'', ''validate'', ''site''] \<or> args = [''terraform'', ''plan'', ''site'']"
    for args
    using that by (auto simp: demo_env_def)
  have v: "validate_directory demo_env ''site'' [] =
     (Inr [],
      [Call_listdir ''site'',
       Log INFO ''Running terraform fmt check...'',
       Call_subprocess_run [''terraform'', ''fmt'', ''-check'', ''site''],
       Log ERROR ''Unexpected error running terraform fmt: spawn failed'',
       Log WARNING ''Terraform formatting check failed'',
       Log INFO ''Running terraform init...'',
       Call_subprocess_run [''terraform'', ''init'', ''site''],
       Log ERROR ''Unexpected error running terraform init: spawn failed'',
       Log WARNING ''Terraform init failed'',
       Log INFO ''Running terraform validate...'',
       Call_subprocess_run [''terraform'', ''validate'', ''site''],
       Log ERROR ''Unexpected error running terraform validate: spawn failed'',
       Log WARNING ''Terraform syntax validation failed'',
       Log INFO ''Running terraform plan...'',
       Call_subprocess_run [''terraform'', ''plan'', ''site''],
       Log ERROR ''Unexpected error running terraform plan: spawn failed'',
       Log WARNING ''Terraform plan failed'',
       Call_walk ''site''])"
    by (simp add: validate_directory_def l w r endswith_def warn_unless_def Let_def
          run_terraform_fmt_def run_terraform_init_def run_terraform_validate_def
          run_terraform_plan_def)
  from l w v show ?thesis by simp
qed

subsection \<open>C4: a file that fails to parse\<close>



subsection \<open>C5: local, missing and other module sources\<close>




subsection \<open>C7: one result per configuration file of the walk\<close>

text \<open>
  C7. When some entry directly under the target directory ends with \<^verbatim>\<open>.tf\<close> and the
  external calls raise instances of \<^verbatim>\<open>Exception\<close> only, \<open>validate_directory\<close> returns a
  list with exactly one result for each configuration file that \<^verbatim>\<open>os.walk\<close> finds
  (subdirectories included), in the order of the walk; each is the result of
  \<open>validate_file\<close> for that path. It returns this list whatever the tool subcommands and
  the single files do.
\<close>

theorem validate_directory_one_result_per_file:
  assumes "os_listdir env d = Inr entries"
    and "\<exists>f \<in> set entries. endswith f ''.tf''"
    and "only_Exception env"
  shows "\<exists>rs. fst (validate_directory env d t) = Inr rs \<and>
              list_all2 (\<lambda>r p. fst (validate_file env d p []) = Inr r \<and> file_path r = p) rs
                (walked_tf_paths (os_walk env d))"
proof -
  obtain t4 where "validate_directory env d t =
                 validate_directory_walk env d (os_walk env d) [] (t4 @ [Call_walk d])"
    using validate_directory_tools_then_walk [OF assms(3,1,2)] by blast
  moreover obtain rs t' where
    "validate_directory_walk env d (os_walk env d) [] (t4 @ [Call_walk d]) = (Inr ([] @ rs), t')"
    "list_all2 (\<lambda>r p. fst (validate_file env d p []) = Inr r \<and> file_path r = p) rs
                (walked_tf_paths (os_walk env d))"
    using walk_loop_results [OF assms(3), of d "os_walk env d" "[]" "t4 @ [Call_walk d]"] by blast
  ultimately show ?thesis by simp
qed

theorem validate_directory_one_result_per_file_witness:
  "walked_tf_paths (os_walk demo_env ''proj'') =
     [''proj/main.tf'', ''proj/modules/net.tf'', ''proj/modules/broken.tf''] \<and>
   (\<exists>rs. fst (validate_directory demo_env ''proj'' []) = Inr rs \<and>
         list_all2 (\<lambda>r p. fst (validate_file demo_env ''proj'' p []) = Inr r \<and> file_path r = p) rs
           (walked_tf_paths (os_walk demo_env ''proj'')))"
proof -
  have l: "os_listdir demo_env ''proj'' = Inr [''main.tf'', ''README.md'', ''modules'']"
    by (simp add: demo_env_def)
  have g: "\<exists>f \<in> set [''main.tf'', ''README.md'', ''modules'']. endswith f ''.tf''"
    by (simp add: endswith_def)
  have w: "walked_tf_paths (os_walk demo_env ''proj'') =
     [''proj/main.tf'', ''proj/modules/net.tf'', ''proj/modules/broken.tf'']"
    by (simp add: walked_tf_paths_def demo_env_def os_path_join_def endswith_def)
  from w validate_directory_one_result_per_file [OF l g demo_env_only_Exception, of "[]"]
  show ?thesis by blast
qed

subsection \<open>C8: the URL Extractor\<close>

text \<open>
  C8. The URL Extractor does not return the URL-shaped strings of the parsed
  configuration: \<open>extract_urls\<close> differs from the recursive walk
  \<open>spec_extract_urls\<close> on a configuration that holds one URL. What holds instead:
  \<open>extract_urls\<close> is a placeholder that returns the empty list for every parsed
  configuration, so that \<open>check_url_reachability\<close> sends no probe and reports no URL.
\<close>

theorem extract_urls_placeholder:
  "extract_urls parser_data = [] \<and> check_url_reachability env parser_data t = (Inr [], t)"
  by (simp add: check_url_reachability_def extract_urls_def)

theorem extract_urls_placeholder_witness:
  "extract_urls [(''resource'', PList [PStr ''http://gone.example/m''])] = [] \<and>
   check_url_reachability demo_env [(''resource'', PList [PStr ''http://gone.example/m''])] [] = (Inr [], [])"
  using extract_urls_placeholder
          [of "[(''resource'', PList [PStr ''http://gone.example/m''])]" demo_env "[]"]
  by simp

theorem extract_urls_counterexample:
  "spec_extract_urls (PDict [(''resource'', PList [PStr ''http://gone.example/m''])]) =
     [''http://gone.example/m''] \<and>
   extract_urls [(''resource'', PList [PStr ''http://gone.example/m''])] = [] \<and>
   extract_urls [(''resource'', PList [PStr ''http://gone.example/m''])] \<noteq>
     spec_extract_urls (PDict [(''resource'', PList [PStr ''http://gone.example/m''])])"
  by (simp add: extract_urls_def url_shaped_def)

subsection \<open>C9: validate_file is determined by its external inputs\<close>

text \<open>
  C9. Two runs of \<open>validate_file\<close> on the same path, in environments where parsing,
  probing, the existence test and the URL scheme answer alike, started from any two
  traces, return the same result and perform the same sequence of effects. The issue
  order follows the order of the module blocks in the dictionary: when the checker
  returns, its list is the texts of the blocks in that order, the issue of the result
  is the rendering of this list, and the rendering keeps the order (two neighbours of
  the list stand in the rendering one after the other).
\<close>

theorem validate_file_deterministic:
  assumes "hcl2_load env1 = hcl2_load env2"
    and "requests_head env1 = requests_head env2"
    and "os_path_exists env1 = os_path_exists env2"
    and "urlparse_scheme env1 = urlparse_scheme env2"
  shows "(\<exists>r evs. validate_file env1 d p t1 = (r, t1 @ evs) \<and>
                   validate_file env2 d p t2 = (r, t2 @ evs)) \<and>
         (hcl2_load env1 p = Inr pd \<and> map_of pd ''module'' = Some (PDict items) \<and>
          fst (check_module_sources env1 d pd []) = Inr xs \<longrightarrow>
          xs = concat (map (module_issue_texts env1 d) items) \<and>
          fst (validate_file env1 d p t1) =
            Inr \<lparr>file_path = p,
                 issues = (if xs \<noteq> []
                           then [''Invalid or unreachable module sources found: '' @ py_str_list xs]
                           else []),
                 is_valid = (xs = [])\<rparr>) \<and>
         (repr_plain x \<and> repr_plain y \<longrightarrow>
          (\<exists>pre post. py_str_list (us @ x # y # vs) =
                        pre @ x @ [CHR 0x27] @ '', '' @ [CHR 0x27] @ y @ post))"
proof -
  obtain r evs where v: "validate_file env2 d p [] = (r, evs)"
    by (cases "validate_file env2 d p []")
  have "validate_file env1 d p t1 = (r, t1 @ evs)"
    using validate_file_shift [of env1 d p t1] validate_file_env_cong [OF assms, of d p "[]"] v
    by simp
  moreover have "validate_file env2 d p t2 = (r, t2 @ evs)"
    using validate_file_shift [of env2 d p t2] v by simp
  ultimately have same: "\<exists>r evs. validate_file env1 d p t1 = (r, t1 @ evs) \<and>
                   validate_file env2 d p t2 = (r, t2 @ evs)" by blast
  have order: "xs = concat (map (module_issue_texts env1 d) items) \<and>
          fst (validate_file env1 d p t1) =
            Inr \<lparr>file_path = p,
                 issues = (if xs \<noteq> []
                           then [''Invalid or unreachable module sources found: '' @ py_str_list xs]
                           else []),
                 is_valid = (xs = [])\<rparr>"
    if h: "hcl2_load env1 p = Inr pd" "map_of pd ''module'' = Some (PDict items)"
          "fst (check_module_sources env1 d pd []) = Inr xs"
  proof -
    obtain es where c: "check_module_sources env1 d pd [] = (Inr xs, es)"
      using h(3) by (cases "check_module_sources env1 d pd []") simp
    with h(2) have "check_module_sources_loop env1 d items [] [] = (Inr xs, es)"
      by (simp add: check_module_sources_def)
    then have 1: "xs = concat (map (module_issue_texts env1 d) items)"
      by (rule loop_texts)
    let ?t0 = "t1 @ [Log INFO (''Validating file: '' @ p), Call_open p]"
    have "check_module_sources env1 d pd ?t0 = (Inr xs, ?t0 @ es)"
      using sources_shift [of env1 d pd ?t0] c by simp
    from validate_file_parsed [OF h(1) this] have 2: "fst (validate_file env1 d p t1) =
            Inr \<lparr>file_path = p,
                 issues = (if xs \<noteq> []
                           then [''Invalid or unreachable module sources found: '' @ py_str_list xs]
                           else []),
                 is_valid = (xs = [])\<rparr>"
      by simp
    from 1 2 show ?thesis by blast
  qed
  have render: "\<exists>pre post. py_str_list (us @ x # y # vs) =
                        pre @ x @ [CHR 0x27] @ '', '' @ [CHR 0x27] @ y @ post"
    if "repr_plain x" "repr_plain y"
    using py_str_list_pair [OF that] .
  from same order render show ?thesis by blast
qed

theorem validate_file_deterministic_witness:
  "(\<exists>r evs. validate_file demo_env ''proj'' ''proj/main.tf'' [] = (r, [] @ evs) \<and>
             validate_file demo_env_no_tool ''proj'' ''proj/main.tf'' [Call_listdir ''proj'']
               = (r, [Call_listdir ''proj''] @ evs)) \<and>
   concat (map (module_issue_texts demo_env ''proj'') demo_modules) =
     [''Module gone: Unreachable source URL http://gone.example/m'',
      ''Module down: Unreachable source URL https://down.example/m'',
      ''Module missing: Local source path does not exist ./missing''] \<and>
   fst (validate_file demo_env ''proj'' ''proj/main.tf'' []) =
     Inr \<lparr>file_path = ''proj/main.tf'',
          issues = [''Invalid or unreachable module sources found: ['' @ [CHR 0x27] @
                    ''Module gone: Unreachable source URL http://gone.example/m'' @
                    [CHR 0x27] @ '', '' @ [CHR 0x27] @
                    ''Module down: Unreachable source URL https://down.example/m'' @
                    [CHR 0x27] @ '', '' @ [CHR 0x27] @
                    ''Module missing: Local source path does not exist ./missing'' @
                    [CHR 0x27] @ '']''],
          is_valid = False\<rparr> \<and>
   (\<exists>pre post.
      py_str_list ([] @ ''Module gone: Unreachable source URL http://gone.example/m'' #
                   ''Module down: Unreachable source URL https://down.example/m'' #
                   [''Module missing: Local source path does not exist ./missing'']) =
        pre @ ''Module gone: Unreachable source URL http://gone.example/m'' @
        [CHR 0x27] @ '', '' @ [CHR 0x27] @
        ''Module down: Unreachable source URL https://down.example/m'' @ post)"
proof -
  let ?xs = "[''Module gone: Unreachable source URL http://gone.example/m'',
              ''Module down: Unreachable source URL https://down.example/m'',
              ''Module missing: Local source path does not exist ./missing'']"
  have agree: "hcl2_load demo_env = hcl2_load demo_env_no_tool"
    "requests_head demo_env = requests_head demo_env_no_tool"
    "os_path_exists demo_env = os_path_exists demo_env_no_tool"
    "urlparse_scheme demo_env = urlparse_scheme demo_env_no_tool"
    by (simp_all add: demo_env_no_tool_def)
  have load: "hcl2_load demo_env ''proj/main.tf'' = Inr [(''module'', PDict demo_modules)]"
    by (simp add: demo_env_def)
  have sect: "map_of [(''module'', PDict demo_modules)] ''module'' = Some (PDict demo_modules)"
    by simp
  have srcs: "fst (check_module_sources demo_env ''proj'' [(''module'', PDict demo_modules)] []) = Inr ?xs"
    by (simp add: check_module_sources_def demo_modules_def demo_eval)
  have plain: "repr_plain ''Module gone: Unreachable source URL http://gone.example/m''"
    "repr_plain ''Module down: Unreachable source URL https://down.example/m''"
    by (simp_all add: repr_plain_def)
  note th = validate_file_deterministic [OF agree, where d = "''proj''" and p = "''proj/main.tf''"
      and ?t1.0 = "[]" and ?t2.0 = "[Call_listdir ''proj'']"
      and pd = "[(''module'', PDict demo_modules)]" and items = demo_modules and xs = ?xs
      and x = "''Module gone: Unreachable source URL http://gone.example/m''"
      and y = "''Module down: Unreachable source URL https://down.example/m''"
      and us = "[]" and vs = "[''Module missing: Local source path does not exist ./missing'']"]
  from th have 1: "\<exists>r evs. validate_file demo_env ''proj'' ''proj/main.tf'' [] = (r, [] @ evs) \<and>
             validate_file demo_env_no_tool ''proj'' ''proj/main.tf'' [Call_listdir ''proj'']
               = (r, [Call_listdir ''proj''] @ evs)"
    by blast
  from th load sect srcs have 2: "?xs = concat (map (module_issue_texts demo_env ''proj'') demo_modules)"
    and 3: "fst (validate_file demo_env ''proj'' ''proj/main.tf'' []) =
            Inr \<lparr>file_path = ''proj/main.tf'',
                 issues = (if ?xs \<noteq> []
                           then [''Invalid or unreachable module sources found: '' @ py_str_list ?xs]
                           else []),
                 is_valid = (?xs = [])\<rparr>"
    by blast+
  have render: "py_str_list ?xs =
     ''['' @ [CHR 0x27] @
     ''Module gone: Unreachable source URL http://gone.example/m'' @
     [CHR 0x27] @ '', '' @ [CHR 0x27] @
     ''Module down: Unreachable source URL https://down.example/m'' @
     [CHR 0x27] @ '', '' @ [CHR 0x27] @
     ''Module missing: Local source path does not exist ./missing'' @
     [CHR 0x27] @ '']''"
    by (simp add: py_str_eval)
  from 3 render have issue: "fst (validate_file demo_env ''proj'' ''proj/main.tf'' []) =
     Inr \<lparr>file_path = ''proj/main.tf'',
          issues = [''Invalid or unreachable module sources found: ['' @ [CHR 0x27] @
                    ''Module gone: Unreachable source URL http://gone.example/m'' @
                    [CHR 0x27] @ '', '' @ [CHR 0x27] @
                    ''Module down: Unreachable source URL https://down.example/m'' @
                    [CHR 0x27] @ '', '' @ [CHR 0x27] @
                    ''Module missing: Local source path does not exist ./missing'' @
                    [CHR 0x27] @ '']''],
          is_valid = False\<rparr>"
    by simp
  from th plain have 4: "\<exists>pre post.
      py_str_list ([] @ ''Module gone: Unreachable source URL http://gone.example/m'' #
                   ''Module down: Unreachable source URL https://down.example/m'' #
                   [''Module missing: Local source path does not exist ./missing'']) =
        pre @ ''Module gone: Unreachable source URL http://gone.example/m'' @
        [CHR 0x27] @ '', '' @ [CHR 0x27] @
        ''Module down: Unreachable source URL https://down.example/m'' @ post"
    by blast
  from 1 2 [symmetric] issue 4 show ?thesis by blast
qed

subsection \<open>C10: an empty source string\<close>

text \<open>
  C10. A module block whose \<^verbatim>\<open>source\<close> attribute is the empty string leaves the list of
  invalid sources and the trace as they are: no issue, no existence test, no probe. The
  result of \<open>check_module_sources\<close> is that of the blocks before and after it.
\<close>

theorem empty_source_skipped:
  assumes "map_of attrs ''source'' = Some (PStr [])"
  shows "check_module_sources_body env d name (PDict attrs) invalid_sources t = (Inr invalid_sources, t) \<and>
         (map_of pd ''module'' = Some (PDict (pre @ (name, PDict attrs) # post)) \<and>
          check_module_sources_loop env d pre [] [] = (Inr a, ta) \<and>
          check_module_sources_loop env d post [] [] = (Inr b, tb) \<longrightarrow>
          check_module_sources env d pd t = (Inr (a @ b), t @ ta @ tb))"
proof -
  have body: "check_module_sources_body env d name (PDict attrs) acc t' = (Inr acc, t')" for acc t'
    using assms by (simp add: check_module_sources_body_def)
  have "check_module_sources env d pd t = (Inr (a @ b), t @ ta @ tb)"
    if "map_of pd ''module'' = Some (PDict (pre @ (name, PDict attrs) # post))"
       "check_module_sources_loop env d pre [] [] = (Inr a, ta)"
       "check_module_sources_loop env d post [] [] = (Inr b, tb)"
    using sources_around [OF that(1,2) body [of "[]" "[]"] that(3), of t] by simp
  with body show ?thesis by blast
qed

theorem empty_source_skipped_witness:
  "check_module_sources_body demo_env ''proj'' ''blank'' (PDict [(''source'', PStr [])])
     [''Module missing: Local source path does not exist ./missing''] []
     = (Inr [''Module missing: Local source path does not exist ./missing''], []) \<and>
   check_module_sources demo_env ''proj'' demo_small [] =
     (Inr ([''Module missing: Local source path does not exist ./missing''] @ []),
      [] @ [Call_exists ''proj/./missing'', Call_exists ''proj/modules/vpc''] @ [])"
proof -
  let ?bare = "(''bare'', PDict [(''version'', PStr ''1.0'')])"
  let ?missing = "(''missing'', PDict [(''source'', PStr ''./missing'')])"
  let ?vpc = "(''vpc'', PDict [(''source'', PStr ''modules/vpc'')])"
  let ?registry = "(''registry'', PDict [(''source'', PStr ''git::ssh://host/repo'')])"
  let ?text = "''Module missing: Local source path does not exist ./missing''"
  have s: "map_of [(''source'', PStr [])] ''source'' = Some (PStr [])"
    by simp
  have m: "map_of demo_small ''module'' =
             Some (PDict ([?bare, ?missing, ?vpc, ?registry] @ (''blank'', PDict [(''source'', PStr [])]) # []))"
    by (simp add: demo_small_def)
  have pre: "check_module_sources_loop demo_env ''proj'' [?bare, ?missing, ?vpc, ?registry] [] [] =
                  (Inr [?text], [Call_exists ''proj/./missing'', Call_exists ''proj/modules/vpc''])"
    by (simp add: demo_small_eval)
  have post: "check_module_sources_loop demo_env ''proj'' [] [] [] = (Inr [], [])"
    by simp
  from m pre post
    empty_source_skipped [OF s, where env = demo_env and d = "''proj''" and name = "''blank''"
      and invalid_sources = "[?text]" and t = "[]" and pd = demo_small
      and pre = "[?bare, ?missing, ?vpc, ?registry]" and post = "[]" and a = "[?text]"
      and ta = "[Call_exists ''proj/./missing'', Call_exists ''proj/modules/vpc'']"
      and b = "[]" and tb = "[]"]
  show ?thesis by blast
qed

end
